theory Spec2Isabelle
  imports Complex_Main "HOL-Library.Signed_Division"
begin

section \<open>The flow tracker (proxy/middleware/tracker.go)\<close>

text \<open>
  Conventions of the embedding.
  \<^item> A Go \<open>float64\<close> is a \<open>real\<close>: the rounding of the IEEE operations is not
    modelled. Request and response sizes enter as \<open>int64\<close> values and are cast.
  \<^item> A Go \<open>int\<close> counter is an \<open>int\<close>: a counter that starts at 0 and is incremented
    once per call does not reach \<open>2^63\<close> in any run of the proxy.
  \<^item> A \<open>time.Time\<close> is the number of nanoseconds since the zero instant, so that
    \<open>time.Time{}\<close> is 0 and \<open>IsZero\<close> tests for it. Every reading of
    \<open>time.Now()\<close> is an argument of the function that takes it.
  \<^item> The \<open>sync.Map\<close> of flows is a map from client IP to \<open>FlowStats\<close>; the
    pointer the Go code mutates under the per-flow mutex is written back into the map.
    The mutex serialises the calls on one flow, so one call is one atomic step.
\<close>

type_synonym Time = int
type_synonym Duration = int

definition IsZero :: "Time \<Rightarrow> bool" where
  "IsZero t = (t = 0)"

definition minDuration :: Duration where
  "minDuration = - (2 ^ 63)"

definition maxDuration :: Duration where
  "maxDuration = 2 ^ 63 - 1"

text \<open>\<open>t.Sub(u)\<close> of package time: the difference in nanoseconds, saturated to the
  range of a \<open>Duration\<close>.\<close>

definition Sub :: "Time \<Rightarrow> Time \<Rightarrow> Duration" where
  "Sub t u = (if t - u < minDuration then minDuration
              else if maxDuration < t - u then maxDuration
              else t - u)"

text \<open>\<open>d.Microseconds()\<close>: integer division by 1000, truncated towards zero.\<close>

definition Microseconds :: "Duration \<Rightarrow> int" where
  "Microseconds d = d sdiv 1000"

record TrafficFeatures =
  BwdPacketLengthStd :: real
  BwdPacketLengthMean :: real
  AvgPacketSize :: real
  FlowBytesSec :: real
  FlowPacketsSec :: real
  FwdIATMean :: real
  FwdIATMax :: real
  FwdIATMin :: real
  FwdIATTotal :: real
  TotalFwdPackets :: int
  SubflowFwdPackets :: int

record FlowStats =
  LastRequestTime :: Time
  FlowStartTime :: Time
  FwdPacketLengths :: "real list"
  BwdPacketLengths :: "real list"
  FwdIATs :: "real list"
  TotalFwdPkts :: int
  TotalBwdPkts :: int

type_synonym FlowTracker = "string \<Rightarrow> FlowStats option"

definition NewFlowTracker :: FlowTracker where
  "NewFlowTracker = (\<lambda>_. None)"

subsection \<open>Statistical helpers\<close>

definition calculateSum :: "real list \<Rightarrow> real" where
  "calculateSum data = foldl (\<lambda>sum v. sum + v) 0 data"

definition calculateMean :: "real list \<Rightarrow> real" where
  "calculateMean data =
     (if length data = 0 then 0
      else foldl (\<lambda>sum v. sum + v) 0 data / real (length data))"

definition calculateStdDev :: "real list \<Rightarrow> real \<Rightarrow> real" where
  "calculateStdDev data mean =
     (if length data = 0 then 0
      else sqrt (foldl (\<lambda>sumSq v. sumSq + (v - mean) * (v - mean)) 0 data
                 / real (length data)))"

definition calculateMax :: "real list \<Rightarrow> real" where
  "calculateMax data =
     (case data of
        [] \<Rightarrow> 0
      | d0 # _ \<Rightarrow> foldl (\<lambda>m v. if v > m then v else m) d0 data)"

definition calculateMin :: "real list \<Rightarrow> real" where
  "calculateMin data =
     (case data of
        [] \<Rightarrow> 0
      | d0 # _ \<Rightarrow> foldl (\<lambda>m v. if v < m then v else m) d0 data)"

subsection \<open>getOrCreateFlow, TrackRequest, UpdateResponseStats\<close>

text \<open>\<open>getOrCreateFlow\<close> returns the flow of the key and the map, in which a missing
  flow has been stored. \<open>tnew\<close> is the reading of the clock on the slow path.\<close>

definition getOrCreateFlow :: "FlowTracker \<Rightarrow> string \<Rightarrow> Time \<Rightarrow> FlowStats \<times> FlowTracker" where
  "getOrCreateFlow ft clientIP tnew =
     (case ft clientIP of
        Some v \<Rightarrow> (v, ft)
      | None \<Rightarrow>
          (let newFlow = \<lparr> LastRequestTime = 0, FlowStartTime = tnew,
                           FwdPacketLengths = [], BwdPacketLengths = [], FwdIATs = [],
                           TotalFwdPkts = 0, TotalBwdPkts = 0 \<rparr>
           in (newFlow, ft(clientIP \<mapsto> newFlow))))"

text \<open>The zero value of \<open>TrafficFeatures\<close>: the fields a composite literal leaves out.\<close>

definition zeroFeatures :: TrafficFeatures where
  "zeroFeatures = \<lparr> BwdPacketLengthStd = 0, BwdPacketLengthMean = 0, AvgPacketSize = 0,
                     FlowBytesSec = 0, FlowPacketsSec = 0, FwdIATMean = 0, FwdIATMax = 0,
                     FwdIATMin = 0, FwdIATTotal = 0, TotalFwdPackets = 0,
                     SubflowFwdPackets = 0 \<rparr>"

text \<open>The inter-arrival time of \<open>TrackRequest\<close>: the variable \<open>fwdIAT\<close>, which
  keeps its zero value when no previous request time is set.\<close>

definition fwdIAT :: "FlowStats \<Rightarrow> Time \<Rightarrow> real" where
  "fwdIAT stats now =
     (if \<not> IsZero (LastRequestTime stats)
      then real_of_int (Microseconds (Sub now (LastRequestTime stats)))
      else 0)"

text \<open>The body of \<open>TrackRequest\<close> between Lock and Unlock, on the flow itself.\<close>

definition trackFlow :: "FlowStats \<Rightarrow> int \<Rightarrow> Time \<Rightarrow> FlowStats" where
  "trackFlow stats reqSize now =
     (let fwdIAT = fwdIAT stats now;
          s1 = stats\<lparr> TotalFwdPkts := TotalFwdPkts stats + 1 \<rparr>;
          s2 = s1\<lparr> FwdPacketLengths := FwdPacketLengths s1 @ [real_of_int reqSize] \<rparr>;
          s3 = (if fwdIAT > 0 then s2\<lparr> FwdIATs := FwdIATs s2 @ [fwdIAT] \<rparr> else s2);
          s4 = s3\<lparr> LastRequestTime := now \<rparr>;
          s5 = (if length (FwdPacketLengths s4) > 100
                then s4\<lparr> FwdPacketLengths := tl (FwdPacketLengths s4) \<rparr> else s4);
          s6 = (if length (FwdIATs s5) > 100
                then s5\<lparr> FwdIATs := tl (FwdIATs s5) \<rparr> else s5)
      in s6)"

definition TrackRequest ::
  "FlowTracker \<Rightarrow> string \<Rightarrow> int \<Rightarrow> Time \<Rightarrow> Time \<Rightarrow> TrafficFeatures \<times> FlowTracker" where
  "TrackRequest ft clientIP reqSize tnew now =
     (let (stats0, ft1) = getOrCreateFlow ft clientIP tnew;
          stats = trackFlow stats0 reqSize now
      in (zeroFeatures\<lparr> TotalFwdPackets := TotalFwdPkts stats,
                        SubflowFwdPackets := TotalFwdPkts stats,
                        FwdIATMean := calculateMean (FwdIATs stats),
                        FwdIATMax := calculateMax (FwdIATs stats),
                        FwdIATMin := calculateMin (FwdIATs stats),
                        FwdIATTotal := calculateSum (FwdIATs stats) \<rparr>,
          ft1(clientIP \<mapsto> stats)))"

text \<open>The state change of \<open>UpdateResponseStats\<close> between Lock and Unlock.\<close>

definition updateFlow :: "FlowStats \<Rightarrow> int \<Rightarrow> FlowStats" where
  "updateFlow stats respSize =
     (let s1 = stats\<lparr> TotalBwdPkts := TotalBwdPkts stats + 1 \<rparr>;
          s2 = s1\<lparr> BwdPacketLengths := BwdPacketLengths s1 @ [real_of_int respSize] \<rparr>;
          s3 = (if length (BwdPacketLengths s2) > 100
                then s2\<lparr> BwdPacketLengths := tl (BwdPacketLengths s2) \<rparr> else s2)
      in s3)"

text \<open>The features it writes through the pointer, from the updated flow.\<close>

definition writeFeatures :: "FlowStats \<Rightarrow> TrafficFeatures \<Rightarrow> TrafficFeatures" where
  "writeFeatures stats features =
     (let bwdMean = calculateMean (BwdPacketLengths stats);
          f1 = features\<lparr> BwdPacketLengthMean := bwdMean \<rparr>;
          f2 = f1\<lparr> BwdPacketLengthStd := calculateStdDev (BwdPacketLengths stats) bwdMean \<rparr>;
          totalPackets = real_of_int (TotalFwdPkts stats + TotalBwdPkts stats);
          totalSize = calculateSum (FwdPacketLengths stats)
                      + calculateSum (BwdPacketLengths stats)
      in if totalPackets > 0 then f2\<lparr> AvgPacketSize := totalSize / totalPackets \<rparr> else f2)"

definition UpdateResponseStats ::
  "FlowTracker \<Rightarrow> string \<Rightarrow> int \<Rightarrow> TrafficFeatures \<Rightarrow> Time \<Rightarrow> TrafficFeatures \<times> FlowTracker" where
  "UpdateResponseStats ft clientIP respSize features tnew =
     (let (stats0, ft1) = getOrCreateFlow ft clientIP tnew;
          stats = updateFlow stats0 respSize
      in (writeFeatures stats features, ft1(clientIP \<mapsto> stats)))"

subsection \<open>Sequences of calls\<close>

datatype call =
  CallTrackRequest string int Time Time
  | CallUpdateResponseStats string int TrafficFeatures Time

fun step :: "FlowTracker \<Rightarrow> call \<Rightarrow> FlowTracker" where
  "step ft (CallTrackRequest clientIP reqSize tnew now) =
     snd (TrackRequest ft clientIP reqSize tnew now)"
| "step ft (CallUpdateResponseStats clientIP respSize features tnew) =
     snd (UpdateResponseStats ft clientIP respSize features tnew)"

definition run :: "call list \<Rightarrow> FlowTracker" where
  "run cs = foldl step NewFlowTracker cs"

text \<open>The spec's words for a bounded sequence: the last \<open>n\<close> entries are kept.\<close>

definition spec_last_n :: "nat \<Rightarrow> 'a list \<Rightarrow> 'a list" where
  "spec_last_n n xs = drop (length xs - n) xs"

text \<open>The window of a key, empty when the key has no flow yet.\<close>

definition window :: "(FlowStats \<Rightarrow> real list) \<Rightarrow> FlowTracker \<Rightarrow> string \<Rightarrow> real list" where
  "window sel ft k = (case ft k of None \<Rightarrow> [] | Some s \<Rightarrow> sel s)"

text \<open>The number of \<open>TrackRequest\<close> calls on a key in a sequence of calls.\<close>

fun isTrackOn :: "string \<Rightarrow> call \<Rightarrow> bool" where
  "isTrackOn k (CallTrackRequest clientIP _ _ _) = (clientIP = k)"
| "isTrackOn k (CallUpdateResponseStats _ _ _ _) = False"

definition trackCalls :: "string \<Rightarrow> call list \<Rightarrow> nat" where
  "trackCalls k cs = length (filter (isTrackOn k) cs)"

text \<open>The number of \<open>UpdateResponseStats\<close> calls on a key in a sequence of calls.\<close>

fun isUpdateOn :: "string \<Rightarrow> call \<Rightarrow> bool" where
  "isUpdateOn k (CallTrackRequest _ _ _ _) = False"
| "isUpdateOn k (CallUpdateResponseStats clientIP _ _ _) = (clientIP = k)"

definition updateCalls :: "string \<Rightarrow> call list \<Rightarrow> nat" where
  "updateCalls k cs = length (filter (isUpdateOn k) cs)"

text \<open>The invariant of a flow that every call preserves.\<close>

definition flow_inv :: "FlowStats \<Rightarrow> bool" where
  "flow_inv s =
     (length (FwdPacketLengths s) \<le> 100 \<and> length (BwdPacketLengths s) \<le> 100
      \<and> length (FwdIATs s) \<le> 100
      \<and> int (length (FwdPacketLengths s)) \<le> TotalFwdPkts s
      \<and> 0 \<le> TotalBwdPkts s
      \<and> (if TotalFwdPkts s = 0 then FwdIATs s = [] \<and> IsZero (LastRequestTime s)
          else int (length (FwdIATs s)) \<le> TotalFwdPkts s - 1)
      \<and> list_all (\<lambda>x. 0 < x) (FwdIATs s))"

section \<open>Strings and addresses (packages strings and net)\<close>

text \<open>
  A Go string is a list of bytes. The functions of package \<open>strings\<close> and
  \<open>net.SplitHostPort\<close> that the middleware calls are written out here as the standard
  library defines them. \<open>ToLower\<close> is given on ASCII (the handler compares its result
  with \<open>bearer\<close>, and no other code point lowers to one of these letters).
\<close>

definition IndexByte :: "string \<Rightarrow> char \<Rightarrow> int" where
  "IndexByte s c = (if c \<in> set s then int (length (takeWhile (\<lambda>x. x \<noteq> c) s)) else - 1)"

definition LastIndexByte :: "string \<Rightarrow> char \<Rightarrow> int" where
  "LastIndexByte s c =
     (if c \<in> set s
      then int (length s) - 1 - int (length (takeWhile (\<lambda>x. x \<noteq> c) (rev s)))
      else - 1)"

text \<open>\<open>strings.Split(s, sep)\<close> for a separator of one byte.\<close>

fun Split :: "string \<Rightarrow> char \<Rightarrow> string list" where
  "Split [] sep = [[]]"
| "Split (x # xs) sep =
     (if x = sep then [] # Split xs sep
      else (case Split xs sep of
              [] \<Rightarrow> [[x]]
            | y # ys \<Rightarrow> (x # y) # ys))"

text \<open>\<open>strings.SplitN(s, sep, 2)\<close> for a separator of one byte: at most two parts, cut
  at the first separator.\<close>

definition SplitN2 :: "string \<Rightarrow> char \<Rightarrow> string list" where
  "SplitN2 s sep =
     (if sep \<in> set s
      then [takeWhile (\<lambda>x. x \<noteq> sep) s, drop 1 (dropWhile (\<lambda>x. x \<noteq> sep) s)]
      else [s])"

text \<open>
  \<open>strings.TrimSpace\<close> removes the leading and the trailing white space as Unicode
  defines it (\<open>unicode.IsSpace\<close>). \<open>spaceEncodings\<close> lists the UTF-8 encodings of these
  code points: tab, line feed, vertical tab, form feed, carriage return, space, U+0085,
  U+00A0, U+1680, U+2000 to U+200A, U+2028, U+2029, U+202F, U+205F and U+3000. A string
  starts (ends) with a white space rune exactly when it starts (ends) with one of these
  byte sequences; \<open>trimLeft\<close> removes such prefixes as long as there is one.
\<close>

definition spaceEncodings :: "string list" where
  "spaceEncodings =
     [[CHR 0x09], [CHR 0x0A], [CHR 0x0B], [CHR 0x0C], [CHR 0x0D], [CHR 0x20],
      [CHR 0xC2, CHR 0x85], [CHR 0xC2, CHR 0xA0],
      [CHR 0xE1, CHR 0x9A, CHR 0x80],
      [CHR 0xE2, CHR 0x80, CHR 0x80], [CHR 0xE2, CHR 0x80, CHR 0x81],
      [CHR 0xE2, CHR 0x80, CHR 0x82], [CHR 0xE2, CHR 0x80, CHR 0x83],
      [CHR 0xE2, CHR 0x80, CHR 0x84], [CHR 0xE2, CHR 0x80, CHR 0x85],
      [CHR 0xE2, CHR 0x80, CHR 0x86], [CHR 0xE2, CHR 0x80, CHR 0x87],
      [CHR 0xE2, CHR 0x80, CHR 0x88], [CHR 0xE2, CHR 0x80, CHR 0x89],
      [CHR 0xE2, CHR 0x80, CHR 0x8A],
      [CHR 0xE2, CHR 0x80, CHR 0xA8], [CHR 0xE2, CHR 0x80, CHR 0xA9],
      [CHR 0xE2, CHR 0x80, CHR 0xAF], [CHR 0xE2, CHR 0x81, CHR 0x9F],
      [CHR 0xE3, CHR 0x80, CHR 0x80]]"

function trimLeft :: "string list \<Rightarrow> string \<Rightarrow> string" where
  "trimLeft encs s =
     (case find (\<lambda>e. e \<noteq> [] \<and> take (length e) s = e) encs of
        None \<Rightarrow> s
      | Some e \<Rightarrow> trimLeft encs (drop (length e) s))"
  by pat_completeness auto
termination
proof (relation "measure (\<lambda>(encs, s). length s)")
  show "wf (measure (\<lambda>(encs, s). length s))" by simp
next
  fix encs :: "string list" and s e :: string
  assume "find (\<lambda>e. e \<noteq> [] \<and> take (length e) s = e) encs = Some e"
  then have e: "e \<noteq> []" and t: "take (length e) s = e"
    by (auto simp: find_Some_iff)
  from e t have "s \<noteq> []" by auto
  with e show "((encs, drop (length e) s), (encs, s)) \<in> measure (\<lambda>(encs, s). length s)"
    by simp
qed

definition TrimSpace :: "string \<Rightarrow> string" where
  "TrimSpace s = rev (trimLeft (map rev spaceEncodings) (rev (trimLeft spaceEncodings s)))"

definition TrimPrefix :: "string \<Rightarrow> string \<Rightarrow> string" where
  "TrimPrefix s pre = (if take (length pre) s = pre then drop (length pre) s else s)"

definition TrimSuffix :: "string \<Rightarrow> string \<Rightarrow> string" where
  "TrimSuffix s suf =
     (if length suf \<le> length s \<and> drop (length s - length suf) s = suf
      then take (length s - length suf) s else s)"

definition toLowerChar :: "char \<Rightarrow> char" where
  "toLowerChar c =
     (case map_of (zip ''ABCDEFGHIJKLMNOPQRSTUVWXYZ'' ''abcdefghijklmnopqrstuvwxyz'') c of
        Some l \<Rightarrow> l
      | None \<Rightarrow> c)"

definition ToLower :: "string \<Rightarrow> string" where
  "ToLower s = map toLowerChar s"

datatype AddrError = AddrError string

text \<open>\<open>net.SplitHostPort\<close>: host and port, or the error of the library.\<close>

definition SplitHostPort :: "string \<Rightarrow> AddrError + (string \<times> string)" where
  "SplitHostPort hostport =
     (let i = LastIndexByte hostport (CHR '':'');
          checks = (\<lambda>host j k.
             if 0 \<le> IndexByte (drop j hostport) (CHR ''['')
             then Inl (AddrError ''unexpected '[' in address'')
             else if 0 \<le> IndexByte (drop k hostport) (CHR '']'')
             then Inl (AddrError ''unexpected ']' in address'')
             else Inr (host, drop (nat i + 1) hostport))
      in if i < 0 then Inl (AddrError ''missing port in address'')
         else if take 1 hostport = ''[''
         then (let endIdx = IndexByte hostport (CHR '']'')
               in if endIdx < 0 then Inl (AddrError ''missing ']' in address'')
                  else if endIdx + 1 = int (length hostport)
                  then Inl (AddrError ''missing port in address'')
                  else if endIdx + 1 = i
                  then checks (take (nat endIdx - 1) (drop 1 hostport)) 1 (nat endIdx + 1)
                  else if hostport ! (nat endIdx + 1) = CHR '':''
                  then Inl (AddrError ''too many colons in address'')
                  else Inl (AddrError ''missing port in address''))
         else (let host = take (nat i) hostport
               in if 0 \<le> IndexByte host (CHR '':'')
                  then Inl (AddrError ''too many colons in address'')
                  else checks host 0 0))"

section \<open>Requests, responses and the state the handlers act on\<close>

text \<open>
  \<^item> An \<open>http.Header\<close> maps a header name to its values; a missing name has no value.
    \<open>Header.Get\<close> returns the first value or the empty string. The names are the ones the
    source writes (the library looks them up in canonical form).
  \<^item> A request carries the fields the handlers read. \<open>TLS\<close> is \<open>None\<close> for
    \<open>req.TLS == nil\<close> and otherwise holds \<open>PeerCertificates\<close>.
  \<^item> A handler takes the request and the state, and returns the response it has
    written and the new state. The state holds the flow tracker and records the effects
    a handler has on its collaborators: the keys looked up in the store, the lines
    logged, the requests sent upstream and the events handed to the producer.
  \<^item> What the collaborators answer is a parameter: the reply of the store to
    \<open>EXISTS\<close>, the behaviour of the token library, the round trip to the origin and
    the readings of the clock.
\<close>

type_synonym HttpHeader = "string \<Rightarrow> string list"

definition Header_Get :: "HttpHeader \<Rightarrow> string \<Rightarrow> string" where
  "Header_Get h key = (case h key of [] \<Rightarrow> [] | v # _ \<Rightarrow> v)"

definition Header_Set :: "HttpHeader \<Rightarrow> string \<Rightarrow> string \<Rightarrow> HttpHeader" where
  "Header_Set h key v = h(key := [v])"

record Certificate =
  SubjectCommonName :: string
  Raw :: string

record Request =
  Method :: string
  URLPath :: string
  URLString :: string
  Proto :: string
  Host :: string
  Header :: HttpHeader
  ContentLength :: int
  RemoteAddr :: string
  TLS :: "Certificate list option"

record Response =
  StatusCode :: int
  RespHeader :: "(string \<times> string) list"
  Body :: string

record RequestLog =
  Timestamp :: Time
  ClientIP :: string
  LogMethod :: string
  URL :: string
  UserAgent :: string
  Status :: int
  DurationMs :: int
  RequestSize :: int
  ResponseSize :: int
  Protocol :: string
  Features :: TrafficFeatures

datatype RedisError = RedisError string

datatype SigningMethod =
  SigningMethodRSA string
  | SigningMethodRSAPSS string
  | SigningMethodHMAC string
  | SigningMethodECDSA string
  | SigningMethodEd25519
  | SigningMethodNone

datatype JWTError =
  ErrTokenMalformed
  | ErrSignatureInvalid
  | ErrTokenUnverifiable JWTError
  | ErrTokenSignatureInvalid
  | ErrTokenInvalidClaims

datatype UpstreamError = UpstreamError string

datatype LogLine =
  LogBlocklistRedisError string RedisError
  | LogBlocklistBlocked string
  | LogJWTMissingHeader string
  | LogJWTInvalidFormat string
  | LogJWTValidationFailed string JWTError
  | LogJWTInvalidToken string
  | LogJWTAuthenticated string
  | LogProxyError string UpstreamError

record World =
  flows :: FlowTracker
  storeLookups :: "string list"
  logs :: "LogLine list"
  upstreamRequests :: "Request list"
  shipped :: "RequestLog list"

type_synonym Handler = "Request \<Rightarrow> World \<Rightarrow> Response \<times> World"

definition logPrintf :: "LogLine \<Rightarrow> World \<Rightarrow> World" where
  "logPrintf l w = w\<lparr> logs := logs w @ [l] \<rparr>"

text \<open>\<open>http.Error\<close>: the two headers, the status and the message followed by a newline.\<close>

definition http_Error :: "string \<Rightarrow> int \<Rightarrow> Response" where
  "http_Error msg code =
     \<lparr> StatusCode = code,
       RespHeader = [(''Content-Type'', ''text/plain; charset=utf-8''),
                     (''X-Content-Type-Options'', ''nosniff'')],
       Body = msg @ [CHR 0x0A] \<rparr>"

definition StatusOK :: int where "StatusOK = 200"
definition StatusUnauthorized :: int where "StatusUnauthorized = 401"
definition StatusForbidden :: int where "StatusForbidden = 403"
definition StatusBadGateway :: int where "StatusBadGateway = 502"

section \<open>The denylist middleware (proxy/middleware/blocklist.go)\<close>

definition extractClientIP :: "Request \<Rightarrow> string" where
  "extractClientIP r =
     (let xff = Header_Get (Header r) ''X-Forwarded-For'' in
      if xff \<noteq> [] then
        (case Split xff (CHR '','') of ip0 # _ \<Rightarrow> TrimSpace ip0 | [] \<Rightarrow> [])
      else
        (let xri = Header_Get (Header r) ''X-Real-IP'' in
         if xri \<noteq> [] then xri
         else
           (let ip = RemoteAddr r;
                idx = LastIndexByte ip (CHR '':'');
                ip1 = (if idx \<noteq> - 1 then take (nat idx) ip else ip);
                ip2 = TrimPrefix ip1 ''['';
                ip3 = TrimSuffix ip2 '']''
            in ip3)))"

text \<open>The client of the store is what \<open>Exists(ctx, key).Result()\<close> returns for a key:
  an error, or the number of keys that exist.\<close>

type_synonym RedisClient = "string \<Rightarrow> RedisError + int"

definition BlocklistMiddleware_Handler :: "RedisClient \<Rightarrow> Handler \<Rightarrow> Handler" where
  "BlocklistMiddleware_Handler client next r w =
     (let clientIP = extractClientIP r;
          key = ''blocklist:ip:'' @ clientIP;
          w1 = w\<lparr> storeLookups := storeLookups w @ [key] \<rparr>
      in case client key of
           Inl err \<Rightarrow> next r (logPrintf (LogBlocklistRedisError clientIP err) w1)
         | Inr exists \<Rightarrow>
             if exists > 0
             then (http_Error ''Forbidden - IP Blocked'' StatusForbidden,
                   logPrintf (LogBlocklistBlocked clientIP) w1)
             else next r w1)"

section \<open>The token validator (proxy/middleware/jwt.go)\<close>

record RSAPublicKey =
  N :: nat
  E :: nat

record Token =
  TokenRaw :: string
  TokenMethod :: SigningMethod
  TokenSub :: "string option"
  TokenValid :: bool

text \<open>
  \<open>jwt.Parse\<close> is the library golang-jwt, not code of this repository. What the library
  and the cryptography do with a token string is a parameter: \<open>parseUnverified\<close> decodes
  the segments and finds the signing method that the header names (an error when the token
  is malformed or the algorithm is not registered), \<open>verifies\<close> tells whether the
  signature verifies under the key, \<open>claimsValid\<close> whether the registered claims
  validate. \<open>jwt_Parse\<close> is the order of the library's steps: decode, call the key
  function of the caller, verify the signature, validate the claims.
\<close>

record JWTLib =
  parseUnverified :: "string \<Rightarrow> JWTError + Token"
  verifies :: "Token \<Rightarrow> RSAPublicKey \<Rightarrow> bool"
  claimsValid :: "Token \<Rightarrow> bool"

definition jwt_Parse ::
  "JWTLib \<Rightarrow> string \<Rightarrow> (Token \<Rightarrow> JWTError + RSAPublicKey) \<Rightarrow> JWTError + Token" where
  "jwt_Parse lib tokenString keyFunc =
     (case parseUnverified lib tokenString of
        Inl e \<Rightarrow> Inl e
      | Inr token \<Rightarrow>
          (case keyFunc token of
             Inl e \<Rightarrow> Inl (ErrTokenUnverifiable e)
           | Inr key \<Rightarrow>
               if \<not> verifies lib token key then Inl ErrTokenSignatureInvalid
               else if \<not> claimsValid lib token then Inl ErrTokenInvalidClaims
               else Inr (token\<lparr> TokenValid := True \<rparr>)))"

text \<open>The key function of the handler: the type assertion on the signing method.\<close>

definition keyFunc :: "RSAPublicKey \<Rightarrow> Token \<Rightarrow> JWTError + RSAPublicKey" where
  "keyFunc publicKey token =
     (case TokenMethod token of
        SigningMethodRSA _ \<Rightarrow> Inr publicKey
      | _ \<Rightarrow> Inl ErrSignatureInvalid)"

definition JWTMiddleware_Handler :: "JWTLib \<Rightarrow> RSAPublicKey \<Rightarrow> Handler \<Rightarrow> Handler" where
  "JWTMiddleware_Handler lib publicKey next r w =
     (if URLPath r = ''/health'' then next r w
      else
        (let authHeader = Header_Get (Header r) ''Authorization'' in
         if authHeader = [] then
           (http_Error ''Unauthorized - Missing token'' StatusUnauthorized,
            logPrintf (LogJWTMissingHeader (RemoteAddr r)) w)
         else
           (case SplitN2 authHeader (CHR '' '') of
              [scheme, tokenString] \<Rightarrow>
                if ToLower scheme \<noteq> ''bearer'' then
                  (http_Error ''Unauthorized - Invalid token format'' StatusUnauthorized,
                   logPrintf (LogJWTInvalidFormat (RemoteAddr r)) w)
                else
                  (case jwt_Parse lib tokenString (keyFunc publicKey) of
                     Inl err \<Rightarrow>
                       (http_Error ''Unauthorized - Invalid token'' StatusUnauthorized,
                        logPrintf (LogJWTValidationFailed (RemoteAddr r) err) w)
                   | Inr token \<Rightarrow>
                       if \<not> TokenValid token then
                         (http_Error ''Unauthorized - Invalid token'' StatusUnauthorized,
                          logPrintf (LogJWTInvalidToken (RemoteAddr r)) w)
                       else
                         (case TokenSub token of
                            Some sub \<Rightarrow> next r (logPrintf (LogJWTAuthenticated sub) w)
                          | None \<Rightarrow> next r w))
            | _ \<Rightarrow>
                (http_Error ''Unauthorized - Invalid token format'' StatusUnauthorized,
                 logPrintf (LogJWTInvalidFormat (RemoteAddr r)) w))))"

section \<open>The logger middleware (proxy/middleware/logger.go)\<close>

definition extractClientIPLogger :: "Request \<Rightarrow> string" where
  "extractClientIPLogger r =
     (let xff = Header_Get (Header r) ''X-Forwarded-For'' in
      if xff \<noteq> [] then
        (case Split xff (CHR '','') of ip0 # _ \<Rightarrow> TrimSpace ip0 | [] \<Rightarrow> [])
      else
        (let xri = Header_Get (Header r) ''X-Real-IP'' in
         if xri \<noteq> [] then xri
         else
           (case SplitHostPort (RemoteAddr r) of
              Inl err \<Rightarrow> RemoteAddr r
            | Inr (host, port) \<Rightarrow> host)))"

text \<open>The readings of the clock during one request, in the order they are taken:
  \<open>start\<close>, the creation of the flow, \<open>now\<close> of \<open>TrackRequest\<close>, the creation of the
  flow in \<open>UpdateResponseStats\<close>, and the end of the request.\<close>

record Clock =
  tStart :: Time
  tNewFlow :: Time
  tTrack :: Time
  tNewFlow2 :: Time
  tEnd :: Time

definition Milliseconds :: "Duration \<Rightarrow> int" where
  "Milliseconds d = d sdiv 1000000"

text \<open>Arithmetic on \<open>int64\<close> wraps around: the result is taken in the range from
  \<open>- 2^63\<close> to \<open>2^63 - 1\<close>.\<close>

definition wrapInt64 :: "int \<Rightarrow> int" where
  "wrapInt64 x = (x + 2 ^ 63) mod 2 ^ 64 - 2 ^ 63"

text \<open>The wrapper of the response writer gives the status and the number of bytes that
  \<open>next\<close> has written; the event is handed to the producer (\<open>go lm.shipLog\<close>).\<close>

definition LoggerMiddleware_Handler :: "Clock \<Rightarrow> Handler \<Rightarrow> Handler" where
  "LoggerMiddleware_Handler clock next r w =
     (let start = tStart clock;
          clientIP = extractClientIPLogger r;
          reqSize0 = ContentLength r;
          reqSize1 = (if reqSize0 < 0 then 0 else reqSize0);
          reqSize = wrapInt64 (reqSize1 + 500);
          (features, ft1) = TrackRequest (flows w) clientIP reqSize (tNewFlow clock) (tTrack clock);
          (resp, w2) = next r (w\<lparr> flows := ft1 \<rparr>);
          statusCode = StatusCode resp;
          responseSize = wrapInt64 (int (length (Body resp)));
          duration = Milliseconds (Sub (tEnd clock) start);
          (features', ft2) =
             UpdateResponseStats (flows w2) clientIP responseSize features (tNewFlow2 clock);
          logEntry = \<lparr> Timestamp = start, ClientIP = clientIP, LogMethod = Method r,
                       URL = URLString r, UserAgent = Header_Get (Header r) ''User-Agent'',
                       Status = statusCode, DurationMs = duration, RequestSize = reqSize,
                       ResponseSize = responseSize, Protocol = Proto r,
                       Features = features' \<rparr>
      in (resp, w2\<lparr> flows := ft2, shipped := shipped w2 @ [logEntry] \<rparr>))"

section \<open>The proxy forwarder (proxy/handler/proxy.go)\<close>

text \<open>
  The director of \<open>httputil.NewSingleHostReverseProxy\<close> rewrites the URL of the request
  and nothing else; how it maps the path and the URL is a parameter. The round trip to
  the origin answers with a response or an error.
\<close>

record ProxyHandler =
  upstreamURL :: string
  targetHost :: string
  rewritePath :: "string \<Rightarrow> string"
  rewriteURL :: "string \<Rightarrow> string"
  roundTrip :: "Request \<Rightarrow> UpstreamError + Response"

definition originalDirector :: "ProxyHandler \<Rightarrow> Request \<Rightarrow> Request" where
  "originalDirector p req =
     req\<lparr> URLPath := rewritePath p (URLPath req), URLString := rewriteURL p (URLString req) \<rparr>"

definition certFingerprint :: "Certificate \<Rightarrow> string" where
  "certFingerprint cert = ''fingerprint''"

definition Director :: "ProxyHandler \<Rightarrow> Request \<Rightarrow> Request" where
  "Director p req0 =
     (let req1 = originalDirector p req0;
          req2 = req1\<lparr> Host := targetHost p \<rparr>;
          req3 = req2\<lparr> Header := Header_Set (Header req2) ''X-Forwarded-By'' ''aegis-zero'' \<rparr>
      in case TLS req3 of
           Some (cert # _) \<Rightarrow>
             (let req4 = req3\<lparr> Header := Header_Set (Header req3) ''X-Client-Cert-CN''
                                            (SubjectCommonName cert) \<rparr>
              in req4\<lparr> Header := Header_Set (Header req4) ''X-Client-Cert-Fingerprint''
                                     (certFingerprint cert) \<rparr>)
         | _ \<Rightarrow> req3)"

definition ProxyHandler_ServeHTTP :: "ProxyHandler \<Rightarrow> Handler" where
  "ProxyHandler_ServeHTTP p r w =
     (let out = Director p r;
          w1 = w\<lparr> upstreamRequests := upstreamRequests w @ [out] \<rparr>
      in case roundTrip p out of
           Inl err \<Rightarrow> (http_Error ''Bad Gateway'' StatusBadGateway,
                       logPrintf (LogProxyError (upstreamURL p) err) w1)
         | Inr resp \<Rightarrow> (resp, w1))"

section \<open>The chain and the routes (proxy/main.go)\<close>

record Server =
  blocklistClient :: RedisClient
  jwtLib :: JWTLib
  jwtPublicKey :: RSAPublicKey
  clock :: Clock
  proxyHandler :: ProxyHandler

text \<open>The chain as \<open>main\<close> builds it, innermost first.\<close>

definition finalHandler :: "Server \<Rightarrow> Handler" where
  "finalHandler srv =
     (let h0 = ProxyHandler_ServeHTTP (proxyHandler srv);
          h1 = LoggerMiddleware_Handler (clock srv) h0;
          h2 = JWTMiddleware_Handler (jwtLib srv) (jwtPublicKey srv) h1;
          h3 = BlocklistMiddleware_Handler (blocklistClient srv) h2
      in h3)"

definition healthCheckHandler :: Handler where
  "healthCheckHandler r w =
     (\<lparr> StatusCode = StatusOK,
        RespHeader = [(''Content-Type'', ''application/json'')],
        Body = ''{\"status\": \"healthy\", \"service\": \"aegis-zero-proxy\"}'' \<rparr>, w)"

text \<open>The two patterns of the \<open>ServeMux\<close>: the path \<open>/health\<close> and the catch-all. (The
  mux answers a path that is not clean by a redirect of its own; the model is on the
  paths that reach a handler.)\<close>

definition mux :: "Server \<Rightarrow> Handler" where
  "mux srv r w =
     (if URLPath r = ''/health'' then healthCheckHandler r w else finalHandler srv r w)"

section \<open>Predicates and fixtures of the statements\<close>

text \<open>The signing methods that pass the type assertion of the key function.\<close>

fun isSigningMethodRSA :: "SigningMethod \<Rightarrow> bool" where
  "isSigningMethodRSA (SigningMethodRSA _) = True"
| "isSigningMethodRSA _ = False"



text \<open>Concrete inputs on which the theorems are instantiated: a state with no flow, a
  request, a token library that knows one HS256 token and accepts every signature, a
  server, a store that holds one key, and a store that cannot be reached.\<close>

definition emptyWorld :: World where
  "emptyWorld = \<lparr> flows = NewFlowTracker, storeLookups = [], logs = [],
                   upstreamRequests = [], shipped = [] \<rparr>"

definition demoRequest :: "string \<Rightarrow> string \<Rightarrow> string list \<Rightarrow> Request" where
  "demoRequest path addr auth =
     \<lparr> Method = ''GET'', URLPath = path, URLString = path, Proto = ''HTTP/1.1'',
       Host = ''proxy.example'', Header = (\<lambda>_. [])(''Authorization'' := auth),
       ContentLength = 0, RemoteAddr = addr, TLS = None \<rparr>"

definition demoLib :: JWTLib where
  "demoLib =
     \<lparr> parseUnverified = (\<lambda>s.
          if s = ''hs256.token''
          then Inr \<lparr> TokenRaw = s, TokenMethod = SigningMethodHMAC ''HS256'',
                     TokenSub = Some ''attacker'', TokenValid = False \<rparr>
          else Inl ErrTokenMalformed),
       verifies = (\<lambda>_ _. True),
       claimsValid = (\<lambda>_. True) \<rparr>"

definition demoServer :: "RedisClient \<Rightarrow> Server" where
  "demoServer client =
     \<lparr> blocklistClient = client,
       jwtLib = demoLib,
       jwtPublicKey = \<lparr> N = 3233, E = 17 \<rparr>,
       clock = \<lparr> tStart = 5000000, tNewFlow = 5000100, tTrack = 5000200,
                 tNewFlow2 = 5900000, tEnd = 6000000 \<rparr>,
       proxyHandler = \<lparr> upstreamURL = ''http://origin:8080'', targetHost = ''origin:8080'',
                        rewritePath = (\<lambda>p. p), rewriteURL = (\<lambda>u. ''http://origin:8080'' @ u),
                        roundTrip = (\<lambda>_. Inr \<lparr> StatusCode = 200, RespHeader = [],
                                                Body = ''ok'' \<rparr>) \<rparr> \<rparr>"

definition storeWith :: "string \<Rightarrow> RedisClient" where
  "storeWith key = (\<lambda>k. Inr (if k = key then 1 else 0))"

definition storeDown :: RedisClient where
  "storeDown = (\<lambda>k. Inl (RedisError ''dial tcp: connection refused''))"

definition okHandler :: Handler where
  "okHandler r w = (\<lparr> StatusCode = 200, RespHeader = [], Body = ''ok'' \<rparr>, w)"

section \<open>Properties of the flow tracker\<close>

lemma calculateSum_sum_list: "calculateSum data = sum_list data"
proof -
  have "foldl (\<lambda>sum v. sum + v) a data = a + sum_list data" for a :: real
    by (induction data arbitrary: a) simp_all
  then show ?thesis by (simp add: calculateSum_def)
qed

lemma flow_inv_new:
  "flow_inv \<lparr> LastRequestTime = 0, FlowStartTime = tnew,
              FwdPacketLengths = [], BwdPacketLengths = [], FwdIATs = [],
              TotalFwdPkts = 0, TotalBwdPkts = 0 \<rparr>"
  by (simp add: flow_inv_def IsZero_def)

lemma list_all_tl: "list_all P xs \<Longrightarrow> list_all P (tl xs)"
  by (cases xs) simp_all

lemma flow_inv_trackFlow: "flow_inv s \<Longrightarrow> flow_inv (trackFlow s reqSize now)"
  by (auto simp: flow_inv_def trackFlow_def fwdIAT_def Let_def IsZero_def list_all_tl
      split: if_splits)

lemma flow_inv_updateFlow: "flow_inv s \<Longrightarrow> flow_inv (updateFlow s respSize)"
  by (auto simp: flow_inv_def updateFlow_def Let_def split: if_splits)

lemma getOrCreateFlow_inv:
  assumes "\<And>s. ft k = Some s \<Longrightarrow> flow_inv s"
  shows "flow_inv (fst (getOrCreateFlow ft k tnew))"
  using assms by (auto simp: getOrCreateFlow_def Let_def flow_inv_new split: option.splits)

lemma getOrCreateFlow_other:
  "k' \<noteq> k \<Longrightarrow> snd (getOrCreateFlow ft k tnew) k' = ft k'"
  by (simp add: getOrCreateFlow_def Let_def split: option.splits)

lemma TrackRequest_flow:
  "snd (TrackRequest ft k reqSize tnew now) k =
   Some (trackFlow (fst (getOrCreateFlow ft k tnew)) reqSize now)"
  by (simp add: TrackRequest_def split_beta Let_def)

lemma TrackRequest_other:
  "k' \<noteq> k \<Longrightarrow> snd (TrackRequest ft k reqSize tnew now) k' = ft k'"
  by (simp add: TrackRequest_def split_beta Let_def getOrCreateFlow_other)

lemma UpdateResponseStats_flow:
  "snd (UpdateResponseStats ft k respSize features tnew) k =
   Some (updateFlow (fst (getOrCreateFlow ft k tnew)) respSize)"
  by (simp add: UpdateResponseStats_def split_beta Let_def)

lemma UpdateResponseStats_other:
  "k' \<noteq> k \<Longrightarrow> snd (UpdateResponseStats ft k respSize features tnew) k' = ft k'"
  by (simp add: UpdateResponseStats_def split_beta Let_def getOrCreateFlow_other)

lemma UpdateResponseStats_features:
  "fst (UpdateResponseStats ft k respSize features tnew) =
   writeFeatures (updateFlow (fst (getOrCreateFlow ft k tnew)) respSize) features"
  by (simp add: UpdateResponseStats_def split_beta Let_def)

lemma step_inv:
  assumes "\<And>k s. ft k = Some s \<Longrightarrow> flow_inv s" and "step ft c k = Some s"
  shows "flow_inv s"
proof (cases c)
  case (CallTrackRequest ip reqSize tnew now)
  show ?thesis
  proof (cases "k = ip")
    case True
    with assms(2) CallTrackRequest
    have "s = trackFlow (fst (getOrCreateFlow ft ip tnew)) reqSize now"
      by (simp add: TrackRequest_flow)
    then show ?thesis
      using assms(1) by (simp add: flow_inv_trackFlow getOrCreateFlow_inv)
  next
    case False
    with assms(2) CallTrackRequest have "ft k = Some s"
      by (simp add: TrackRequest_other)
    then show ?thesis by (rule assms(1))
  qed
next
  case (CallUpdateResponseStats ip respSize features tnew)
  show ?thesis
  proof (cases "k = ip")
    case True
    with assms(2) CallUpdateResponseStats
    have "s = updateFlow (fst (getOrCreateFlow ft ip tnew)) respSize"
      by (simp add: UpdateResponseStats_flow)
    then show ?thesis
      using assms(1) by (simp add: flow_inv_updateFlow getOrCreateFlow_inv)
  next
    case False
    with assms(2) CallUpdateResponseStats have "ft k = Some s"
      by (simp add: UpdateResponseStats_other)
    then show ?thesis by (rule assms(1))
  qed
qed

lemma run_snoc: "run (cs @ [c]) = step (run cs) c"
  by (simp add: run_def)

lemma run_inv: "run cs k = Some s \<Longrightarrow> flow_inv s"
proof (induction cs arbitrary: k s rule: rev_induct)
  case Nil
  then show ?case by (simp add: run_def NewFlowTracker_def)
next
  case (snoc c cs)
  then show ?case by (auto simp: run_snoc intro: step_inv)
qed

lemma run_getOrCreateFlow_inv: "flow_inv (fst (getOrCreateFlow (run cs) k tnew))"
  by (rule getOrCreateFlow_inv) (rule run_inv)

lemma tl_snoc_100: "length xs = 100 \<Longrightarrow> tl (xs @ [x]) = tl xs @ [x]"
  by (cases xs) simp_all

lemma getOrCreateFlow_window:
  "sel \<in> {FwdPacketLengths, BwdPacketLengths, FwdIATs} \<Longrightarrow>
   sel (fst (getOrCreateFlow ft k tnew)) = window sel ft k"
  by (auto simp: getOrCreateFlow_def Let_def window_def split: option.splits)

lemma window_Some: "ft k = Some s \<Longrightarrow> window sel ft k = sel s"
  by (simp add: window_def)

lemma trackFlow_fwd:
  "length (FwdPacketLengths s) \<le> 100 \<Longrightarrow>
   FwdPacketLengths (trackFlow s reqSize now) =
   spec_last_n 100 (FwdPacketLengths s @ [real_of_int reqSize])"
  by (cases "length (FwdPacketLengths s) = 100")
     (simp_all add: trackFlow_def Let_def spec_last_n_def drop_Suc tl_snoc_100)

lemma trackFlow_iats:
  "length (FwdIATs s) \<le> 100 \<Longrightarrow>
   FwdIATs (trackFlow s reqSize now) =
   spec_last_n 100 (FwdIATs s @ (if 0 < fwdIAT s now then [fwdIAT s now] else []))"
  by (cases "length (FwdIATs s) = 100")
     (simp_all add: trackFlow_def Let_def spec_last_n_def drop_Suc tl_snoc_100)

lemma updateFlow_bwd:
  "length (BwdPacketLengths s) \<le> 100 \<Longrightarrow>
   BwdPacketLengths (updateFlow s respSize) =
   spec_last_n 100 (BwdPacketLengths s @ [real_of_int respSize])"
  by (cases "length (BwdPacketLengths s) = 100")
     (simp_all add: updateFlow_def Let_def spec_last_n_def drop_Suc tl_snoc_100)

lemma trackFlow_total: "TotalFwdPkts (trackFlow s reqSize now) = TotalFwdPkts s + 1"
  by (simp add: trackFlow_def Let_def)

lemma updateFlow_total: "TotalFwdPkts (updateFlow s respSize) = TotalFwdPkts s"
  by (simp add: updateFlow_def Let_def)

lemma getOrCreateFlow_total:
  "TotalFwdPkts (fst (getOrCreateFlow ft k tnew)) =
   (case ft k of None \<Rightarrow> 0 | Some s \<Rightarrow> TotalFwdPkts s)"
  by (simp add: getOrCreateFlow_def Let_def split: option.splits)

lemma run_trackCalls:
  "(case run cs k of None \<Rightarrow> trackCalls k cs = 0
    | Some s \<Rightarrow> TotalFwdPkts s = int (trackCalls k cs))"
proof (induction cs rule: rev_induct)
  case Nil
  then show ?case by (simp add: run_def NewFlowTracker_def trackCalls_def)
next
  case (snoc c cs)
  show ?case
  proof (cases c)
    case (CallTrackRequest ip reqSize tnew now)
    show ?thesis
    proof (cases "k = ip")
      case True
      with snoc CallTrackRequest show ?thesis
        by (simp add: run_snoc TrackRequest_flow trackFlow_total getOrCreateFlow_total
            trackCalls_def split: option.splits)
    next
      case False
      with snoc CallTrackRequest show ?thesis
        by (auto simp: run_snoc TrackRequest_other trackCalls_def split: option.splits)
    qed
  next
    case (CallUpdateResponseStats ip respSize features tnew)
    show ?thesis
    proof (cases "k = ip")
      case True
      with snoc CallUpdateResponseStats show ?thesis
        by (simp add: run_snoc UpdateResponseStats_flow updateFlow_total getOrCreateFlow_total
            trackCalls_def split: option.splits)
    next
      case False
      with snoc CallUpdateResponseStats show ?thesis
        by (auto simp: run_snoc UpdateResponseStats_other trackCalls_def split: option.splits)
    qed
  qed
qed

lemma writeFeatures_avg:
  "AvgPacketSize (writeFeatures s features) =
   (if 0 < TotalFwdPkts s + TotalBwdPkts s
    then (calculateSum (FwdPacketLengths s) + calculateSum (BwdPacketLengths s))
         / real_of_int (TotalFwdPkts s + TotalBwdPkts s)
    else AvgPacketSize features)"
  by (simp add: writeFeatures_def Let_def)

lemma TrackRequest_avg: "AvgPacketSize (fst (TrackRequest ft k reqSize tnew now)) = 0"
  by (simp add: TrackRequest_def split_beta Let_def zeroFeatures_def)

lemma updateFlow_positive:
  "flow_inv s \<Longrightarrow> 0 < TotalFwdPkts (updateFlow s respSize) + TotalBwdPkts (updateFlow s respSize)"
  by (simp add: flow_inv_def updateFlow_def Let_def)

text \<open>A concrete run on one key, used to instantiate the theorems below: two requests
  one millisecond apart with a response in between.\<close>

lemma run_example:
  "run [CallTrackRequest ''10.0.0.9'' 600 5000000 5000000,
        CallUpdateResponseStats ''10.0.0.9'' 250 zeroFeatures 5200000,
        CallTrackRequest ''10.0.0.9'' 600 6000000 6000000] ''10.0.0.9''
   = Some \<lparr> LastRequestTime = 6000000, FlowStartTime = 5000000,
            FwdPacketLengths = [600, 600], BwdPacketLengths = [250], FwdIATs = [1000],
            TotalFwdPkts = 2, TotalBwdPkts = 1 \<rparr>"
  by (simp add: run_def TrackRequest_def UpdateResponseStats_def getOrCreateFlow_def
      NewFlowTracker_def trackFlow_def fwdIAT_def updateFlow_def Let_def IsZero_def
      Microseconds_def Sub_def minDuration_def maxDuration_def signed_divide_int_def)

lemma run_example_backward_first:
  "run [CallUpdateResponseStats ''10.0.0.8'' 0 zeroFeatures 7] ''10.0.0.8''
   = Some \<lparr> LastRequestTime = 0, FlowStartTime = 7,
            FwdPacketLengths = [], BwdPacketLengths = [0], FwdIATs = [],
            TotalFwdPkts = 0, TotalBwdPkts = 1 \<rparr>"
  by (simp add: run_def UpdateResponseStats_def getOrCreateFlow_def NewFlowTracker_def
      updateFlow_def Let_def)

subsection \<open>Bounded windows\<close>

text \<open>
  Claim C2. After any sequence of \<open>TrackRequest\<close> and \<open>UpdateResponseStats\<close> calls the
  flow of a key holds at most 100 forward sizes, 100 backward sizes and 100 inter-arrival
  times. A further call on the key leaves in each window it appends to the last 100 entries
  of the old window followed by the new entry: when the append exceeds the bound the
  oldest entry is dropped.
\<close>

theorem C2_bounded_windows:
  "(\<forall>s. run cs k = Some s \<longrightarrow>
      length (FwdPacketLengths s) \<le> 100 \<and> length (BwdPacketLengths s) \<le> 100
      \<and> length (FwdIATs s) \<le> 100)
   \<and> window FwdPacketLengths (step (run cs) (CallTrackRequest k reqSize tnew now)) k
       = spec_last_n 100 (window FwdPacketLengths (run cs) k @ [real_of_int reqSize])
   \<and> window FwdIATs (step (run cs) (CallTrackRequest k reqSize tnew now)) k
       = spec_last_n 100 (window FwdIATs (run cs) k
           @ (if 0 < fwdIAT (fst (getOrCreateFlow (run cs) k tnew)) now
              then [fwdIAT (fst (getOrCreateFlow (run cs) k tnew)) now] else []))
   \<and> window BwdPacketLengths
        (step (run cs) (CallUpdateResponseStats k respSize features tnew)) k
       = spec_last_n 100 (window BwdPacketLengths (run cs) k @ [real_of_int respSize])"
proof -
  let ?s0 = "fst (getOrCreateFlow (run cs) k tnew)"
  have inv0: "flow_inv ?s0" by (rule run_getOrCreateFlow_inv)
  have a: "\<forall>s. run cs k = Some s \<longrightarrow>
      length (FwdPacketLengths s) \<le> 100 \<and> length (BwdPacketLengths s) \<le> 100
      \<and> length (FwdIATs s) \<le> 100"
    using run_inv [of cs k] by (simp add: flow_inv_def)
  have b: "window FwdPacketLengths (step (run cs) (CallTrackRequest k reqSize tnew now)) k
       = spec_last_n 100 (window FwdPacketLengths (run cs) k @ [real_of_int reqSize])"
    using inv0 getOrCreateFlow_window [of FwdPacketLengths "run cs" k tnew]
    by (simp add: window_Some [OF TrackRequest_flow] trackFlow_fwd flow_inv_def)
  have c: "window FwdIATs (step (run cs) (CallTrackRequest k reqSize tnew now)) k
       = spec_last_n 100 (window FwdIATs (run cs) k
           @ (if 0 < fwdIAT ?s0 now then [fwdIAT ?s0 now] else []))"
    using inv0 getOrCreateFlow_window [of FwdIATs "run cs" k tnew]
    by (simp add: window_Some [OF TrackRequest_flow] trackFlow_iats flow_inv_def)
  have d: "window BwdPacketLengths
        (step (run cs) (CallUpdateResponseStats k respSize features tnew)) k
       = spec_last_n 100 (window BwdPacketLengths (run cs) k @ [real_of_int respSize])"
    using inv0 getOrCreateFlow_window [of BwdPacketLengths "run cs" k tnew]
    by (simp add: window_Some [OF UpdateResponseStats_flow] updateFlow_bwd flow_inv_def)
  from a b c d show ?thesis by blast
qed

theorem C2_bounded_windows_witness:
  "run [CallTrackRequest ''10.0.0.9'' 600 5000000 5000000,
        CallUpdateResponseStats ''10.0.0.9'' 250 zeroFeatures 5200000,
        CallTrackRequest ''10.0.0.9'' 600 6000000 6000000] ''10.0.0.9''
   = Some \<lparr> LastRequestTime = 6000000, FlowStartTime = 5000000,
            FwdPacketLengths = [600, 600], BwdPacketLengths = [250], FwdIATs = [1000],
            TotalFwdPkts = 2, TotalBwdPkts = 1 \<rparr>
   \<and> length [600, 600 :: real] \<le> 100 \<and> length [250 :: real] \<le> 100
   \<and> length [1000 :: real] \<le> 100"
  using C2_bounded_windows
    [of "[CallTrackRequest ''10.0.0.9'' 600 5000000 5000000,
          CallUpdateResponseStats ''10.0.0.9'' 250 zeroFeatures 5200000,
          CallTrackRequest ''10.0.0.9'' 600 6000000 6000000]" "''10.0.0.9''"]
  by (simp add: run_example)

subsection \<open>Average packet size\<close>

text \<open>Both counters count calls: \<open>TotalBwdPkts\<close> of the flow of a key is the number of
  \<open>UpdateResponseStats\<close> calls made on the key, as \<open>TotalFwdPkts\<close> is the number of
  \<open>TrackRequest\<close> calls.\<close>

lemma trackFlow_totalBwd: "TotalBwdPkts (trackFlow s reqSize now) = TotalBwdPkts s"
  by (simp add: trackFlow_def Let_def)

lemma updateFlow_totalBwd: "TotalBwdPkts (updateFlow s respSize) = TotalBwdPkts s + 1"
  by (simp add: updateFlow_def Let_def)

lemma updateFlow_fwd: "FwdPacketLengths (updateFlow s respSize) = FwdPacketLengths s"
  by (simp add: updateFlow_def Let_def)

lemma getOrCreateFlow_totalBwd:
  "TotalBwdPkts (fst (getOrCreateFlow ft k tnew)) =
   (case ft k of None \<Rightarrow> 0 | Some s \<Rightarrow> TotalBwdPkts s)"
  by (simp add: getOrCreateFlow_def Let_def split: option.splits)

lemma run_updateCalls:
  "(case run cs k of None \<Rightarrow> updateCalls k cs = 0
    | Some s \<Rightarrow> TotalBwdPkts s = int (updateCalls k cs))"
proof (induction cs rule: rev_induct)
  case Nil
  then show ?case by (simp add: run_def NewFlowTracker_def updateCalls_def)
next
  case (snoc c cs)
  show ?case
  proof (cases c)
    case (CallTrackRequest ip reqSize tnew now)
    show ?thesis
    proof (cases "k = ip")
      case True
      with snoc CallTrackRequest show ?thesis
        by (simp add: run_snoc TrackRequest_flow trackFlow_totalBwd getOrCreateFlow_totalBwd
            updateCalls_def split: option.splits)
    next
      case False
      with snoc CallTrackRequest show ?thesis
        by (auto simp: run_snoc TrackRequest_other updateCalls_def split: option.splits)
    qed
  next
    case (CallUpdateResponseStats ip respSize features tnew)
    show ?thesis
    proof (cases "k = ip")
      case True
      with snoc CallUpdateResponseStats show ?thesis
        by (simp add: run_snoc UpdateResponseStats_flow updateFlow_totalBwd
            getOrCreateFlow_totalBwd updateCalls_def split: option.splits)
    next
      case False
      with snoc CallUpdateResponseStats show ?thesis
        by (auto simp: run_snoc UpdateResponseStats_other updateCalls_def split: option.splits)
    qed
  qed
qed

lemma getOrCreateFlow_counts:
  "TotalFwdPkts (fst (getOrCreateFlow (run cs) k tnew)) = int (trackCalls k cs)
   \<and> TotalBwdPkts (fst (getOrCreateFlow (run cs) k tnew)) = int (updateCalls k cs)"
  using run_trackCalls [where cs = cs and k = k] run_updateCalls [where cs = cs and k = k]
  by (simp add: getOrCreateFlow_total getOrCreateFlow_totalBwd split: option.splits)

text \<open>
  Claim C4. After \<open>UpdateResponseStats\<close> on a key, the \<open>AvgPacketSize\<close> of the features is
  the sum of the current forward window plus the sum of the current backward window,
  divided by \<open>TotalFwdPkts + TotalBwdPkts\<close> of the updated flow, whenever that divisor is
  positive, and the field keeps the value it had otherwise (first conjunct, for any
  tracker). The features that \<open>TrackRequest\<close> returns have the field at zero (second
  conjunct). In a tracker reached by a sequence of calls (third conjunct) the windows of
  the updated flow are the bounded ones (the forward window as it was, the backward
  window the last 100 of the old one followed by the new size), the totals are the
  all-time counters (the number of \<open>TrackRequest\<close> calls on the key, and the number of
  \<open>UpdateResponseStats\<close> calls on the key including this one), the divisor is positive,
  and the field is the quotient.
\<close>

theorem C4_avg_packet_size:
  "(\<exists>s. snd (UpdateResponseStats ft k respSize features tnew) k = Some s
      \<and> AvgPacketSize (fst (UpdateResponseStats ft k respSize features tnew))
          = (if 0 < TotalFwdPkts s + TotalBwdPkts s
             then (sum_list (FwdPacketLengths s) + sum_list (BwdPacketLengths s))
                  / real_of_int (TotalFwdPkts s + TotalBwdPkts s)
             else AvgPacketSize features))
   \<and> AvgPacketSize (fst (TrackRequest ft k reqSize tnew' now)) = 0
   \<and> (\<exists>s. snd (UpdateResponseStats (run cs) k respSize features tnew) k = Some s
      \<and> FwdPacketLengths s = window FwdPacketLengths (run cs) k
      \<and> BwdPacketLengths s
          = spec_last_n 100 (window BwdPacketLengths (run cs) k @ [real_of_int respSize])
      \<and> TotalFwdPkts s = int (trackCalls k cs)
      \<and> TotalBwdPkts s = int (updateCalls k cs) + 1
      \<and> 0 < TotalFwdPkts s + TotalBwdPkts s
      \<and> AvgPacketSize (fst (UpdateResponseStats (run cs) k respSize features tnew))
          = (sum_list (FwdPacketLengths s) + sum_list (BwdPacketLengths s))
            / real_of_int (TotalFwdPkts s + TotalBwdPkts s)
      \<and> AvgPacketSize (fst (UpdateResponseStats (run cs) k respSize features tnew))
          = (sum_list (window FwdPacketLengths (run cs) k)
             + sum_list (spec_last_n 100
                 (window BwdPacketLengths (run cs) k @ [real_of_int respSize])))
            / real_of_int (int (trackCalls k cs) + int (updateCalls k cs) + 1))"
proof -
  have a: "\<exists>s. snd (UpdateResponseStats ft k respSize features tnew) k = Some s
      \<and> AvgPacketSize (fst (UpdateResponseStats ft k respSize features tnew))
          = (if 0 < TotalFwdPkts s + TotalBwdPkts s
             then (sum_list (FwdPacketLengths s) + sum_list (BwdPacketLengths s))
                  / real_of_int (TotalFwdPkts s + TotalBwdPkts s)
             else AvgPacketSize features)" for ft
    by (simp only: UpdateResponseStats_flow UpdateResponseStats_features writeFeatures_avg
        calculateSum_sum_list) simp
  let ?pre = "fst (getOrCreateFlow (run cs) k tnew)"
  let ?post = "updateFlow ?pre respSize"
  have inv0: "flow_inv ?pre" by (rule run_getOrCreateFlow_inv)
  have s: "snd (UpdateResponseStats (run cs) k respSize features tnew) k = Some ?post"
    by (rule UpdateResponseStats_flow)
  have fwd: "FwdPacketLengths ?post = window FwdPacketLengths (run cs) k"
    using getOrCreateFlow_window [of FwdPacketLengths "run cs" k tnew]
    by (simp add: updateFlow_fwd)
  have bwd: "BwdPacketLengths ?post
          = spec_last_n 100 (window BwdPacketLengths (run cs) k @ [real_of_int respSize])"
    using inv0 getOrCreateFlow_window [of BwdPacketLengths "run cs" k tnew]
    by (simp add: updateFlow_bwd flow_inv_def)
  have tf: "TotalFwdPkts ?post = int (trackCalls k cs)"
    by (simp add: updateFlow_total getOrCreateFlow_counts)
  have tb: "TotalBwdPkts ?post = int (updateCalls k cs) + 1"
    by (simp add: updateFlow_totalBwd getOrCreateFlow_counts)
  have pos: "0 < TotalFwdPkts ?post + TotalBwdPkts ?post"
    by (rule updateFlow_positive) (rule inv0)
  have avg: "AvgPacketSize (fst (UpdateResponseStats (run cs) k respSize features tnew))
          = (sum_list (FwdPacketLengths ?post) + sum_list (BwdPacketLengths ?post))
            / real_of_int (TotalFwdPkts ?post + TotalBwdPkts ?post)"
    using pos
    by (simp only: UpdateResponseStats_features writeFeatures_avg calculateSum_sum_list if_True)
  have avg2: "AvgPacketSize (fst (UpdateResponseStats (run cs) k respSize features tnew))
          = (sum_list (window FwdPacketLengths (run cs) k)
             + sum_list (spec_last_n 100
                 (window BwdPacketLengths (run cs) k @ [real_of_int respSize])))
            / real_of_int (int (trackCalls k cs) + int (updateCalls k cs) + 1)"
    unfolding avg fwd bwd tf tb by (simp add: add.assoc)
  from s fwd bwd tf tb pos avg avg2
  have c: "\<exists>s. snd (UpdateResponseStats (run cs) k respSize features tnew) k = Some s
      \<and> FwdPacketLengths s = window FwdPacketLengths (run cs) k
      \<and> BwdPacketLengths s
          = spec_last_n 100 (window BwdPacketLengths (run cs) k @ [real_of_int respSize])
      \<and> TotalFwdPkts s = int (trackCalls k cs)
      \<and> TotalBwdPkts s = int (updateCalls k cs) + 1
      \<and> 0 < TotalFwdPkts s + TotalBwdPkts s
      \<and> AvgPacketSize (fst (UpdateResponseStats (run cs) k respSize features tnew))
          = (sum_list (FwdPacketLengths s) + sum_list (BwdPacketLengths s))
            / real_of_int (TotalFwdPkts s + TotalBwdPkts s)
      \<and> AvgPacketSize (fst (UpdateResponseStats (run cs) k respSize features tnew))
          = (sum_list (window FwdPacketLengths (run cs) k)
             + sum_list (spec_last_n 100
                 (window BwdPacketLengths (run cs) k @ [real_of_int respSize])))
            / real_of_int (int (trackCalls k cs) + int (updateCalls k cs) + 1)"
    by blast
  from a [of ft] TrackRequest_avg [of ft k reqSize tnew' now] c show ?thesis by blast
qed

subsection \<open>Counters and windows\<close>

text \<open>
  Claim C7, as stated, at the sequence that starts with \<open>UpdateResponseStats\<close>: the call
  creates the flow with \<open>TotalFwdPkts = 0\<close> and no inter-arrival time, and
  \<open>0 \<le> 0 - 1\<close> is false.
\<close>

theorem C7_counterexample:
  "run [CallUpdateResponseStats ''10.0.0.8'' 0 zeroFeatures 7] ''10.0.0.8''
   = Some \<lparr> LastRequestTime = 0, FlowStartTime = 7,
            FwdPacketLengths = [], BwdPacketLengths = [0], FwdIATs = [],
            TotalFwdPkts = 0, TotalBwdPkts = 1 \<rparr>
   \<and> \<not> int (length (FwdIATs \<lparr> LastRequestTime = 0, FlowStartTime = 7,
            FwdPacketLengths = [], BwdPacketLengths = [0], FwdIATs = [],
            TotalFwdPkts = 0, TotalBwdPkts = 1 \<rparr>))
        \<le> TotalFwdPkts \<lparr> LastRequestTime = 0, FlowStartTime = 7,
            FwdPacketLengths = [], BwdPacketLengths = [0], FwdIATs = [],
            TotalFwdPkts = 0, TotalBwdPkts = 1 \<rparr> - 1"
  by (simp add: run_example_backward_first)

text \<open>
  Claim C7, amended. For the flow of a key after any sequence of calls,
  \<open>TotalFwdPkts\<close> is the number of \<open>TrackRequest\<close> calls made on the key and is at least
  the length of \<open>FwdPacketLengths\<close>; once a \<open>TrackRequest\<close> has been made on the key,
  the length of \<open>FwdIATs\<close> is at most \<open>TotalFwdPkts - 1\<close>; before that (the flow was
  created by \<open>UpdateResponseStats\<close>) \<open>FwdIATs\<close> is empty.
\<close>

theorem C7_counters_amended:
  assumes "run cs k = Some s"
  shows "int (length (FwdPacketLengths s)) \<le> TotalFwdPkts s
         \<and> TotalFwdPkts s = int (trackCalls k cs)
         \<and> (if trackCalls k cs = 0 then FwdIATs s = []
            else int (length (FwdIATs s)) \<le> TotalFwdPkts s - 1)"
proof -
  from assms have inv: "flow_inv s" by (rule run_inv)
  from assms run_trackCalls [where cs = cs and k = k] have total: "TotalFwdPkts s = int (trackCalls k cs)"
    by simp
  from inv have "int (length (FwdPacketLengths s)) \<le> TotalFwdPkts s"
    by (simp add: flow_inv_def)
  moreover from inv total
  have "if trackCalls k cs = 0 then FwdIATs s = []
        else int (length (FwdIATs s)) \<le> TotalFwdPkts s - 1"
    by (simp add: flow_inv_def split: if_splits)
  ultimately show ?thesis using total by simp
qed

theorem C7_counters_amended_witness:
  "run [CallTrackRequest ''10.0.0.9'' 600 5000000 5000000,
        CallUpdateResponseStats ''10.0.0.9'' 250 zeroFeatures 5200000,
        CallTrackRequest ''10.0.0.9'' 600 6000000 6000000] ''10.0.0.9''
   = Some \<lparr> LastRequestTime = 6000000, FlowStartTime = 5000000,
            FwdPacketLengths = [600, 600], BwdPacketLengths = [250], FwdIATs = [1000],
            TotalFwdPkts = 2, TotalBwdPkts = 1 \<rparr>
   \<and> trackCalls ''10.0.0.9''
       [CallTrackRequest ''10.0.0.9'' 600 5000000 5000000,
        CallUpdateResponseStats ''10.0.0.9'' 250 zeroFeatures 5200000,
        CallTrackRequest ''10.0.0.9'' 600 6000000 6000000] = 2
   \<and> int (length [1000 :: real]) \<le> 2 - 1"
  using C7_counters_amended [OF run_example]
  by (simp add: run_example trackCalls_def)

subsection \<open>Inter-arrival times\<close>

text \<open>
  Claim C10. Every element of \<open>FwdIATs\<close> of a flow reached by calls is strictly positive.
  In \<open>TrackRequest\<close> on such a flow, when no previous request time is set the window is
  left as it is; otherwise the inter-arrival time in microseconds is appended (keeping the
  last 100 entries) if it is greater than zero, and the window is left as it is if it is
  zero or negative.
\<close>

theorem C10_iat_positive:
  "(\<forall>s. run cs k = Some s \<longrightarrow> (\<forall>x \<in> set (FwdIATs s). 0 < x))
   \<and> window FwdIATs (step (run cs) (CallTrackRequest k reqSize tnew now)) k
       = (case run cs k of
            None \<Rightarrow> []
          | Some s \<Rightarrow>
              if IsZero (LastRequestTime s) then FwdIATs s
              else if 0 < Microseconds (Sub now (LastRequestTime s))
              then spec_last_n 100
                     (FwdIATs s @ [real_of_int (Microseconds (Sub now (LastRequestTime s)))])
              else FwdIATs s)"
proof -
  have a: "\<forall>s. run cs k = Some s \<longrightarrow> (\<forall>x \<in> set (FwdIATs s). 0 < x)"
    using run_inv [of cs k] by (simp add: flow_inv_def list_all_iff)
  let ?s0 = "fst (getOrCreateFlow (run cs) k tnew)"
  have inv0: "flow_inv ?s0" by (rule run_getOrCreateFlow_inv)
  then have len: "length (FwdIATs ?s0) \<le> 100" by (simp add: flow_inv_def)
  have "window FwdIATs (step (run cs) (CallTrackRequest k reqSize tnew now)) k
        = spec_last_n 100 (FwdIATs ?s0 @ (if 0 < fwdIAT ?s0 now then [fwdIAT ?s0 now] else []))"
    by (simp add: window_Some [OF TrackRequest_flow] trackFlow_iats [OF len])
  also have "\<dots> = (case run cs k of
            None \<Rightarrow> []
          | Some s \<Rightarrow>
              if IsZero (LastRequestTime s) then FwdIATs s
              else if 0 < Microseconds (Sub now (LastRequestTime s))
              then spec_last_n 100
                     (FwdIATs s @ [real_of_int (Microseconds (Sub now (LastRequestTime s)))])
              else FwdIATs s)"
  proof (cases "run cs k")
    case None
    then show ?thesis
      by (simp add: getOrCreateFlow_def Let_def fwdIAT_def IsZero_def spec_last_n_def)
  next
    case (Some s)
    with len have "length (FwdIATs s) \<le> 100" by (simp add: getOrCreateFlow_def)
    with Some show ?thesis
      by (simp add: getOrCreateFlow_def fwdIAT_def spec_last_n_def)
  qed
  finally show ?thesis using a by blast
qed

theorem C10_iat_positive_witness:
  "run [CallTrackRequest ''10.0.0.9'' 600 5000000 5000000,
        CallUpdateResponseStats ''10.0.0.9'' 250 zeroFeatures 5200000,
        CallTrackRequest ''10.0.0.9'' 600 6000000 6000000] ''10.0.0.9''
   = Some \<lparr> LastRequestTime = 6000000, FlowStartTime = 5000000,
            FwdPacketLengths = [600, 600], BwdPacketLengths = [250], FwdIATs = [1000],
            TotalFwdPkts = 2, TotalBwdPkts = 1 \<rparr>
   \<and> list_all (\<lambda>x. 0 < x) [1000 :: real]"
  using C10_iat_positive
    [of "[CallTrackRequest ''10.0.0.9'' 600 5000000 5000000,
          CallUpdateResponseStats ''10.0.0.9'' 250 zeroFeatures 5200000,
          CallTrackRequest ''10.0.0.9'' 600 6000000 6000000]" "''10.0.0.9''"]
  by (simp add: run_example)

section \<open>Properties of the client key\<close>


lemma takeWhile_neq_append: "c \<notin> set xs \<Longrightarrow> takeWhile (\<lambda>x. x \<noteq> c) (xs @ c # ys) = xs"
  by (induction xs) auto

lemma dropWhile_neq_append:
  "c \<notin> set xs \<Longrightarrow> dropWhile (\<lambda>x. x \<noteq> c) (xs @ c # ys) = c # ys"
  by (induction xs) auto



lemma Split_not_Nil: "Split s sep \<noteq> []"
  by (induction s) (auto split: list.splits)

lemma SplitN2_cut: "sep \<notin> set xs \<Longrightarrow> SplitN2 (xs @ sep # ys) sep = [xs, ys]"
  by (simp add: SplitN2_def takeWhile_neq_append dropWhile_neq_append)













text \<open>The hypothesis on the peer address is needed. An IPv6 address with no port and no
  brackets, which \<open>net/http\<close> never hands a handler, is cut at its last colon by
  \<open>extractClientIP\<close> and returned whole by \<open>extractClientIPLogger\<close>.\<close>

lemma client_key_port_less_ipv6:
  "extractClientIP \<lparr> Method = ''GET'', URLPath = ''/api'', URLString = ''/api'',
       Proto = ''HTTP/1.1'', Host = ''proxy'', Header = (\<lambda>_. []), ContentLength = 0,
       RemoteAddr = ''::1'', TLS = None \<rparr> = '':''
   \<and> extractClientIPLogger \<lparr> Method = ''GET'', URLPath = ''/api'', URLString = ''/api'',
       Proto = ''HTTP/1.1'', Host = ''proxy'', Header = (\<lambda>_. []), ContentLength = 0,
       RemoteAddr = ''::1'', TLS = None \<rparr> = ''::1''"
  by (simp add: extractClientIP_def extractClientIPLogger_def Header_Get_def
      SplitHostPort_def LastIndexByte_def IndexByte_def TrimPrefix_def TrimSuffix_def Let_def)

section \<open>Properties of the middleware chain\<close>

lemma demo_ip:
  "extractClientIP (demoRequest path ''10.0.0.7:55000'' auth) = ''10.0.0.7''"
  by (simp add: extractClientIP_def demoRequest_def Header_Get_def LastIndexByte_def
      TrimPrefix_def TrimSuffix_def Let_def)

lemma ToLower_Bearer: "ToLower ''Bearer'' = ''bearer''"
  by (simp add: ToLower_def toLowerChar_def)

subsection \<open>The denylist comes first\<close>

text \<open>
  Claim C1. When the store answers that the key \<open>blocklist:ip:<ClientKey>\<close> exists, the
  composed chain returns the 403 of the denylist middleware, whatever the
  \<open>Authorization\<close> header is (missing, malformed or an invalid token): the status is
  never 401, and the only effects are the lookup and the log line of the denylist
  middleware, so the token validator and the handlers behind it have not run.
\<close>

theorem C1_denylist_before_token:
  assumes "blocklistClient srv (''blocklist:ip:'' @ extractClientIP r) = Inr n" and "0 < n"
  shows "finalHandler srv r w =
           (http_Error ''Forbidden - IP Blocked'' 403,
            w\<lparr> storeLookups := storeLookups w @ [''blocklist:ip:'' @ extractClientIP r],
               logs := logs w @ [LogBlocklistBlocked (extractClientIP r)] \<rparr>)
         \<and> StatusCode (fst (finalHandler srv r w)) = 403
         \<and> StatusCode (fst (finalHandler srv r w)) \<noteq> 401"
  using assms
  by (simp add: finalHandler_def BlocklistMiddleware_Handler_def Let_def logPrintf_def
      StatusForbidden_def http_Error_def)

theorem C1_denylist_before_token_witness:
  "storeWith ''blocklist:ip:10.0.0.7'' (''blocklist:ip:'' @ extractClientIP
        (demoRequest ''/api/orders'' ''10.0.0.7:55000'' [''Bearer not-a-token''])) = Inr 1
   \<and> finalHandler (demoServer (storeWith ''blocklist:ip:10.0.0.7''))
        (demoRequest ''/api/orders'' ''10.0.0.7:55000'' [''Bearer not-a-token'']) emptyWorld
      = (http_Error ''Forbidden - IP Blocked'' 403,
         emptyWorld\<lparr> storeLookups := [''blocklist:ip:10.0.0.7''],
                      logs := [LogBlocklistBlocked ''10.0.0.7''] \<rparr>)"
proof -
  have k: "blocklistClient (demoServer (storeWith ''blocklist:ip:10.0.0.7''))
             (''blocklist:ip:'' @ extractClientIP
                (demoRequest ''/api/orders'' ''10.0.0.7:55000'' [''Bearer not-a-token'']))
           = Inr 1"
    by (simp add: demo_ip demoServer_def storeWith_def)
  show ?thesis
    using C1_denylist_before_token [OF k, of emptyWorld]
    by (simp add: demo_ip storeWith_def emptyWorld_def)
qed

text \<open>The same request from an address that is not in the store reaches the token
  validator and gets its 401.\<close>

lemma invalid_token_not_denied:
  "finalHandler (demoServer (storeWith ''blocklist:ip:10.0.0.8''))
        (demoRequest ''/api/orders'' ''10.0.0.7:55000'' [''Bearer not-a-token'']) emptyWorld
      = (http_Error ''Unauthorized - Invalid token'' 401,
         emptyWorld\<lparr> storeLookups := [''blocklist:ip:10.0.0.7''],
                      logs := [LogJWTValidationFailed ''10.0.0.7:55000'' ErrTokenMalformed] \<rparr>)"
proof -
  have sp: "SplitN2 ''Bearer not-a-token'' (CHR '' '') = [''Bearer'', ''not-a-token'']"
    by (simp add: SplitN2_def)
  show ?thesis
    unfolding finalHandler_def Let_def BlocklistMiddleware_Handler_def demo_ip
    by (simp add: demoServer_def storeWith_def JWTMiddleware_Handler_def demoRequest_def
        Header_Get_def sp ToLower_Bearer jwt_Parse_def demoLib_def logPrintf_def emptyWorld_def
        StatusUnauthorized_def)
qed

subsection \<open>The denylist fails open\<close>

text \<open>
  Claim C3. When the lookup in the store returns an error, the denylist middleware logs
  it and calls the next handler: its response is the response of the next handler, so no
  403 comes from the middleware itself.
\<close>

theorem C3_fail_open:
  assumes "client (''blocklist:ip:'' @ extractClientIP r) = Inl err"
  shows "BlocklistMiddleware_Handler client next r w =
           next r (w\<lparr> storeLookups := storeLookups w @ [''blocklist:ip:'' @ extractClientIP r],
                       logs := logs w @ [LogBlocklistRedisError (extractClientIP r) err] \<rparr>)"
  using assms by (simp add: BlocklistMiddleware_Handler_def Let_def logPrintf_def)

theorem C3_fail_open_witness:
  "storeDown (''blocklist:ip:'' @ extractClientIP (demoRequest ''/api/orders'' ''10.0.0.7:55000'' []))
     = Inl (RedisError ''dial tcp: connection refused'')
   \<and> finalHandler (demoServer storeDown) (demoRequest ''/api/orders'' ''10.0.0.7:55000'' [])
        emptyWorld
     = (http_Error ''Unauthorized - Missing token'' 401,
        emptyWorld\<lparr> storeLookups := [''blocklist:ip:10.0.0.7''],
                     logs := [LogBlocklistRedisError ''10.0.0.7''
                                (RedisError ''dial tcp: connection refused''),
                              LogJWTMissingHeader ''10.0.0.7:55000''] \<rparr>)"
proof -
  have k: "storeDown (''blocklist:ip:'' @ extractClientIP
             (demoRequest ''/api/orders'' ''10.0.0.7:55000'' []))
           = Inl (RedisError ''dial tcp: connection refused'')"
    by (simp add: storeDown_def)
  have j: "JWTMiddleware_Handler demoLib pk nxt
             (demoRequest ''/api/orders'' ''10.0.0.7:55000'' []) w
           = (http_Error ''Unauthorized - Missing token'' 401,
              w\<lparr> logs := logs w @ [LogJWTMissingHeader ''10.0.0.7:55000''] \<rparr>)" for pk nxt w
    by (simp add: JWTMiddleware_Handler_def demoRequest_def Header_Get_def logPrintf_def
        StatusUnauthorized_def)
  show ?thesis
    using C3_fail_open
      [of storeDown "demoRequest ''/api/orders'' ''10.0.0.7:55000'' []"
          "RedisError ''dial tcp: connection refused''"
          "JWTMiddleware_Handler demoLib \<lparr> N = 3233, E = 17 \<rparr>
             (LoggerMiddleware_Handler (clock (demoServer storeDown))
                (ProxyHandler_ServeHTTP (proxyHandler (demoServer storeDown))))"
          emptyWorld, OF k]
    by (simp add: storeDown_def finalHandler_def demoServer_def j demo_ip emptyWorld_def)
qed

subsection \<open>The signing algorithm is pinned\<close>

text \<open>
  Claim C6. On a route other than \<open>/health\<close>, a request with a bearer token whose signing
  method is not of the RSA type (RS256, RS384, RS512), or whose algorithm the library does
  not know, is answered with 401 and the next handler is not called: the result does not
  depend on \<open>next\<close>, and it does not depend on whether the signature verifies, which the
  library is never asked.
\<close>

theorem C6_algorithm_pinning:
  assumes "URLPath r \<noteq> ''/health''"
    and "Header_Get (Header r) ''Authorization'' = scheme @ '' '' @ tokenString"
    and "CHR '' '' \<notin> set scheme" and "ToLower scheme = ''bearer''"
    and "\<forall>token. parseUnverified lib tokenString = Inr token
           \<longrightarrow> \<not> isSigningMethodRSA (TokenMethod token)"
  shows "JWTMiddleware_Handler lib publicKey next r w =
           (http_Error ''Unauthorized - Invalid token'' 401,
            w\<lparr> logs := logs w @ [LogJWTValidationFailed (RemoteAddr r)
                 (case parseUnverified lib tokenString of
                    Inl e \<Rightarrow> e
                  | Inr token \<Rightarrow> ErrTokenUnverifiable ErrSignatureInvalid)] \<rparr>)"
proof -
  have sp: "SplitN2 (scheme @ CHR '' '' # tokenString) (CHR '' '') = [scheme, tokenString]"
    using assms(3) by (rule SplitN2_cut)
  have kf: "keyFunc publicKey token = Inl ErrSignatureInvalid"
    if "parseUnverified lib tokenString = Inr token" for token
  proof -
    from that assms(5) have "\<not> isSigningMethodRSA (TokenMethod token)" by blast
    then show ?thesis by (cases "TokenMethod token") (simp_all add: keyFunc_def)
  qed
  have parse: "jwt_Parse lib tokenString (keyFunc publicKey) =
                 Inl (case parseUnverified lib tokenString of
                        Inl e \<Rightarrow> e
                      | Inr token \<Rightarrow> ErrTokenUnverifiable ErrSignatureInvalid)"
    by (cases "parseUnverified lib tokenString") (simp_all add: jwt_Parse_def kf)
  show ?thesis
    using assms(1,2,4) sp
    by (simp add: JWTMiddleware_Handler_def parse logPrintf_def StatusUnauthorized_def)
qed

theorem C6_algorithm_pinning_witness:
  "verifies demoLib \<lparr> TokenRaw = ''hs256.token'', TokenMethod = SigningMethodHMAC ''HS256'',
                      TokenSub = Some ''attacker'', TokenValid = False \<rparr> \<lparr> N = 3233, E = 17 \<rparr>
   \<and> JWTMiddleware_Handler demoLib \<lparr> N = 3233, E = 17 \<rparr> okHandler
       (demoRequest ''/api/orders'' ''10.0.0.9:55000'' [''Bearer hs256.token'']) emptyWorld
     = (http_Error ''Unauthorized - Invalid token'' 401,
        emptyWorld\<lparr> logs := [LogJWTValidationFailed ''10.0.0.9:55000''
                                (ErrTokenUnverifiable ErrSignatureInvalid)] \<rparr>)"
  using C6_algorithm_pinning
    [of "demoRequest ''/api/orders'' ''10.0.0.9:55000'' [''Bearer hs256.token'']"
        "''Bearer''" "''hs256.token''" demoLib
        "\<lparr> N = 3233, E = 17 \<rparr>" okHandler emptyWorld]
  by (simp add: ToLower_Bearer demoRequest_def Header_Get_def demoLib_def emptyWorld_def)

subsection \<open>The certificate headers of the forwarder\<close>

text \<open>
  Claim C8, on the code. For a request that carries a peer certificate the director sets
  \<open>X-Client-Cert-CN\<close> to the common name of the first certificate, as the claim says, and
  sets \<open>X-Client-Cert-Fingerprint\<close> to the constant \<open>fingerprint\<close>: \<open>certFingerprint\<close>
  does not look at the certificate, two certificates with different DER bytes get the same
  value, and the value has 11 characters where a SHA-256 digest in hex has 64.
\<close>

theorem C8_fingerprint_placeholder:
  "Header_Get (Header (Director p (r\<lparr> TLS := Some (cert # certs) \<rparr>))) ''X-Client-Cert-CN''
     = SubjectCommonName cert
   \<and> Header_Get (Header (Director p (r\<lparr> TLS := Some (cert # certs) \<rparr>)))
       ''X-Client-Cert-Fingerprint'' = ''fingerprint''
   \<and> certFingerprint \<lparr> SubjectCommonName = ''test-client'', Raw = ''0'' \<rparr>
     = certFingerprint \<lparr> SubjectCommonName = ''attacker-client'', Raw = ''1'' \<rparr>
   \<and> length (certFingerprint cert) = 11"
  by (simp add: Director_def originalDirector_def Header_Get_def Header_Set_def Let_def
      certFingerprint_def)

subsection \<open>The health route\<close>

text \<open>
  Claim C9, as stated, at a request to \<open>/health\<close>: the body that the handler writes has a
  space after each colon and after the comma, so it is not the string of the claim.
\<close>

theorem C9_counterexample:
  "URLPath (demoRequest ''/health'' ''10.0.0.8:55000'' []) = ''/health''
   \<and> Body (fst (mux (demoServer storeDown) (demoRequest ''/health'' ''10.0.0.8:55000'' [])
        emptyWorld))
     \<noteq> ''{\"status\":\"healthy\",\"service\":\"aegis-zero-proxy\"}''"
  by (simp add: mux_def healthCheckHandler_def demoRequest_def)

text \<open>
  Claim C9, amended. Every request to the path \<open>/health\<close> returns status 200 with the
  body \<open>{"status": "healthy", "service": "aegis-zero-proxy"}\<close> (a space after each colon and
  after the comma) and leaves the state as it was, for every server, store, token
  library and header: no key is looked up, nothing is logged, no flow is created, nothing
  is sent upstream and no event is shipped, so no middleware of the chain has run.
\<close>

theorem C9_health_amended:
  assumes "URLPath r = ''/health''"
  shows "mux srv r w =
           (\<lparr> StatusCode = 200, RespHeader = [(''Content-Type'', ''application/json'')],
              Body = ''{\"status\": \"healthy\", \"service\": \"aegis-zero-proxy\"}'' \<rparr>, w)"
  using assms by (simp add: mux_def healthCheckHandler_def StatusOK_def)

theorem C9_health_amended_witness:
  "URLPath (demoRequest ''/health'' ''10.0.0.8:55000'' []) = ''/health''
   \<and> Header_Get (Header (demoRequest ''/health'' ''10.0.0.8:55000'' [])) ''Authorization'' = []
   \<and> mux (demoServer (storeWith ''blocklist:ip:10.0.0.8''))
        (demoRequest ''/health'' ''10.0.0.8:55000'' []) emptyWorld
     = (\<lparr> StatusCode = 200, RespHeader = [(''Content-Type'', ''application/json'')],
          Body = ''{\"status\": \"healthy\", \"service\": \"aegis-zero-proxy\"}'' \<rparr>,
        emptyWorld)
   \<and> flows emptyWorld ''10.0.0.8'' = None"
  using C9_health_amended
    [of "demoRequest ''/health'' ''10.0.0.8:55000'' []"
        "demoServer (storeWith ''blocklist:ip:10.0.0.8'')" emptyWorld]
  by (simp add: demoRequest_def Header_Get_def emptyWorld_def NewFlowTracker_def)

end
